theory Spec2Isabelle
  imports Main "HOL-Library.Sublist"
begin

section \<open>Creative Content Studio: the agent client\<close>

text \<open>
  A shallow embedding of \<^verbatim>\<open>ContentStudioAgent\<close> as it is written in
  \<^verbatim>\<open>Python-Application/content-studio-client.py\<close> and in
  \<^verbatim>\<open>Python_Application/content_studio_client.py\<close>. The two files hold the same
  \<^verbatim>\<open>call_tool\<close> and \<^verbatim>\<open>process_query\<close>; only the first one defines
  \<^verbatim>\<open>format_tools_for_claude\<close>.

  The two collaborators of the agent are parameters of the model: the MCP session
  (\<^verbatim>\<open>self.session.call_tool\<close>) and the model backend
  (\<^verbatim>\<open>anthropic_client.messages.create\<close>). Each is a function on a state of its own, so
  that two calls with equal arguments may answer differently, and each may raise.
  An exception of the model is an instance of Python's \<^verbatim>\<open>Exception\<close>, which is what
  the handler of \<^verbatim>\<open>call_tool\<close> catches. The \<^verbatim>\<open>print\<close> calls are left out.
\<close>

subsection \<open>Data\<close>

text \<open>JSON values: the input of a tool and the schema of a tool (floats left out).\<close>

datatype json =
    JNull
  | JBool bool
  | JInt int
  | JString string
  | JArray "json list"
  | JObject "(string \<times> json) list"

text \<open>An exception: its class name and what \<^verbatim>\<open>str(e)\<close> returns.\<close>

datatype exception = Exception (exc_class: string) (exc_str: string)

text \<open>
  An element of \<^verbatim>\<open>result.content\<close>: a text element has the attribute \<^verbatim>\<open>text\<close>, any
  other element (an image, an audio clip, an embedded resource) has not; it carries its
  class name.
\<close>

datatype content_item = TextContent string | NonTextContent string

text \<open>
  What \<^verbatim>\<open>session.call_tool\<close> returns: \<open>result_content\<close> is \<open>None\<close> when the object has no
  attribute \<^verbatim>\<open>content\<close>, and \<open>result_str\<close> is what \<^verbatim>\<open>str(result)\<close> returns.
\<close>

record host_result =
  result_content :: "content_item list option"
  result_str :: string

text \<open>A tool as the MCP server lists it, and as it is sent to the model backend.\<close>

record tool =
  mcp_name :: string
  mcp_description :: string
  mcp_inputSchema :: json

record claude_tool =
  name :: string
  description :: string
  input_schema :: json

text \<open>
  A block of \<^verbatim>\<open>response.content\<close>. Only a text block has the attribute \<^verbatim>\<open>text\<close>, only a
  tool-use block has the type \<^verbatim>\<open>"tool_use"\<close>; a thinking block has neither.
\<close>

datatype block =
    TextBlock string
  | ToolUseBlock string string json
  | ThinkingBlock string

record response =
  stop_reason :: string
  response_content :: "block list"

text \<open>The dictionary \<^verbatim>\<open>{"type": "tool_result", "tool_use_id": ..., "content": ...}\<close>.\<close>

record tool_result =
  tool_use_id :: string
  result_text :: string

text \<open>
  A message of the list \<^verbatim>\<open>messages\<close>: a role and a content, which is the query text, the
  content of a response, or the list \<^verbatim>\<open>tool_results\<close>.
\<close>

datatype role = User | Assistant

datatype message_content =
    PlainText string
  | Blocks "block list"
  | ToolResults "tool_result list"

record message =
  msg_role :: role
  msg_content :: message_content

text \<open>
  The environment of one run: the state of the tool host and of the model backend, and
  the calls made so far. \<open>tool_calls\<close> has one entry for each call of \<^verbatim>\<open>call_tool\<close> (name,
  input and what the call gave back); \<open>requests\<close> has one entry for each call of
  \<^verbatim>\<open>messages.create\<close> (the tools and messages sent, and the answer).
\<close>

record ('h, 'b) world =
  host_state :: 'h
  backend_state :: 'b
  tool_calls :: "(string \<times> json \<times> (exception + string)) list"
  requests :: "(claude_tool list \<times> message list \<times> (exception + response)) list"

type_synonym 'h session = "'h \<Rightarrow> string \<Rightarrow> json \<Rightarrow> (exception + host_result) \<times> 'h"

type_synonym 'b backend =
  "'b \<Rightarrow> claude_tool list \<Rightarrow> message list \<Rightarrow> (exception + response) \<times> 'b"

text \<open>The fields of \<^verbatim>\<open>ContentStudioAgent\<close>; \<open>session\<close> is \<open>None\<close> until a server is connected.\<close>

record 'h agent =
  session :: "'h session option"
  available_tools :: "tool list"

subsection \<open>Strings of the Python runtime\<close>

text \<open>The message of the \<^verbatim>\<open>AttributeError\<close> that a missing attribute raises.\<close>

definition attribute_error :: "string \<Rightarrow> string \<Rightarrow> exception" where
  "attribute_error cls attr =
     Exception ''AttributeError''
       ([CHR 0x27] @ cls @ [CHR 0x27] @ '' object has no attribute '' @ [CHR 0x27] @ attr @ [CHR 0x27])"

text \<open>
  \<^verbatim>\<open>json.dumps\<close> on a dictionary from strings to strings, with the default
  \<^verbatim>\<open>ensure_ascii=True\<close> and the default separators. A character is a code point below 256.
\<close>

definition hex_digit :: "nat \<Rightarrow> char" where
  "hex_digit n = ''0123456789abcdef'' ! (n mod 16)"

definition escape_char :: "char \<Rightarrow> string" where
  "escape_char c =
     (if c = CHR 0x22 then [CHR 0x5C, CHR 0x22]
      else if c = CHR 0x5C then [CHR 0x5C, CHR 0x5C]
      else if c = CHR 0x0A then [CHR 0x5C, CHR ''n'']
      else if c = CHR 0x0D then [CHR 0x5C, CHR ''r'']
      else if c = CHR 0x09 then [CHR 0x5C, CHR ''t'']
      else if c = CHR 0x08 then [CHR 0x5C, CHR ''b'']
      else if c = CHR 0x0C then [CHR 0x5C, CHR ''f'']
      else if (32::nat) \<le> of_char c \<and> (of_char c :: nat) \<le> 126 then [c]
      else [CHR 0x5C, CHR ''u'', CHR ''0'', CHR ''0'',
            hex_digit ((of_char c :: nat) div 16), hex_digit (of_char c :: nat)])"

definition json_string :: "string \<Rightarrow> string" where
  "json_string s = [CHR 0x22] @ concat (map escape_char s) @ [CHR 0x22]"

fun json_items :: "(string \<times> string) list \<Rightarrow> string" where
  "json_items [] = []"
| "json_items [(k, v)] = json_string k @ '': '' @ json_string v"
| "json_items ((k, v) # kvs) = json_string k @ '': '' @ json_string v @ '', '' @ json_items kvs"

definition json_dumps :: "(string \<times> string) list \<Rightarrow> string" where
  "json_dumps d = ''{'' @ json_items d @ ''}''"

subsection \<open>\<^verbatim>\<open>format_tools_for_claude\<close>\<close>

text \<open>The loop appends one dictionary for each tool of \<^verbatim>\<open>self.available_tools\<close>.\<close>

fun format_tools_loop :: "tool list \<Rightarrow> claude_tool list \<Rightarrow> claude_tool list" where
  "format_tools_loop [] claude_tools = claude_tools"
| "format_tools_loop (t # ts) claude_tools =
     format_tools_loop ts
       (claude_tools @
         [\<lparr>name = mcp_name t, description = mcp_description t,
           input_schema = mcp_inputSchema t\<rparr>])"

definition format_tools_for_claude :: "'h agent \<Rightarrow> claude_tool list" where
  "format_tools_for_claude self = format_tools_loop (available_tools self) []"

subsection \<open>\<^verbatim>\<open>call_tool\<close>\<close>

text \<open>
  \<^verbatim>\<open>await self.session.call_tool(tool_name, arguments=tool_input)\<close>: with no session the
  attribute lookup on \<^verbatim>\<open>None\<close> raises.
\<close>

definition session_call_tool ::
  "'h agent \<Rightarrow> string \<Rightarrow> json \<Rightarrow> ('h, 'b) world \<Rightarrow> (exception + host_result) \<times> ('h, 'b) world"
where
  "session_call_tool self tool_name tool_input w =
     (case session self of
        None \<Rightarrow> (Inl (attribute_error ''NoneType'' ''call_tool''), w)
      | Some call \<Rightarrow>
          (case call (host_state w) tool_name tool_input of
             (r, h) \<Rightarrow> (r, w\<lparr>host_state := h\<rparr>)))"

text \<open>
  The two return statements of the \<^verbatim>\<open>try\<close> block: \<^verbatim>\<open>result.content[0].text\<close> when the
  result has a non-empty \<^verbatim>\<open>content\<close>, \<^verbatim>\<open>str(result)\<close> otherwise. Reading \<^verbatim>\<open>text\<close> from an
  element that has none raises.
\<close>

definition extract_text :: "host_result \<Rightarrow> exception + string" where
  "extract_text result =
     (case result_content result of
        Some (TextContent t # rest) \<Rightarrow> Inr t
      | Some (NonTextContent cls # rest) \<Rightarrow> Inl (attribute_error cls ''text'')
      | Some [] \<Rightarrow> Inr (result_str result)
      | None \<Rightarrow> Inr (result_str result))"

definition call_tool_try ::
  "'h agent \<Rightarrow> string \<Rightarrow> json \<Rightarrow> ('h, 'b) world \<Rightarrow> (exception + string) \<times> ('h, 'b) world"
where
  "call_tool_try self tool_name tool_input w =
     (case session_call_tool self tool_name tool_input w of
        (Inl e, w') \<Rightarrow> (Inl e, w')
      | (Inr result, w') \<Rightarrow> (extract_text result, w'))"

text \<open>The handler \<^verbatim>\<open>except Exception as e\<close>.\<close>

definition call_tool_except :: "exception \<Rightarrow> string" where
  "call_tool_except e =
     json_dumps [(''status'', ''error''),
                 (''message'', ''Tool execution failed: '' @ exc_str e)]"

definition call_tool ::
  "'h agent \<Rightarrow> string \<Rightarrow> json \<Rightarrow> ('h, 'b) world \<Rightarrow> (exception + string) \<times> ('h, 'b) world"
where
  "call_tool self tool_name tool_input w =
     (case call_tool_try self tool_name tool_input w of
        (out, w') \<Rightarrow>
          (let ret = (case out of Inl e \<Rightarrow> Inr (call_tool_except e) | Inr s \<Rightarrow> Inr s)
           in (ret, w'\<lparr>tool_calls := tool_calls w' @ [(tool_name, tool_input, ret)]\<rparr>)))"

subsection \<open>\<^verbatim>\<open>process_query\<close>\<close>

text \<open>
  The two versions of the class: \<open>Hyphen_file\<close> is
  \<^verbatim>\<open>Python-Application/content-studio-client.py\<close>, which defines
  \<^verbatim>\<open>format_tools_for_claude\<close>, and \<open>Underscore_file\<close> is
  \<^verbatim>\<open>Python_Application/content_studio_client.py\<close>, which does not: there the expression
  \<^verbatim>\<open>self.format_tools_for_claude()\<close> raises.
\<close>

datatype client_file = Hyphen_file | Underscore_file

definition self_format_tools_for_claude ::
  "client_file \<Rightarrow> 'h agent \<Rightarrow> exception + claude_tool list"
where
  "self_format_tools_for_claude client self =
     (case client of
        Hyphen_file \<Rightarrow> Inr (format_tools_for_claude self)
      | Underscore_file \<Rightarrow>
          Inl (attribute_error ''ContentStudioAgent'' ''format_tools_for_claude''))"

text \<open>\<^verbatim>\<open>anthropic_client.messages.create(model=..., max_tokens=4096, tools=..., messages=...)\<close>.\<close>

definition messages_create ::
  "'b backend \<Rightarrow> claude_tool list \<Rightarrow> message list \<Rightarrow> ('h, 'b) world
     \<Rightarrow> (exception + response) \<times> ('h, 'b) world"
where
  "messages_create backend tools messages w =
     (case backend (backend_state w) tools messages of
        (r, b) \<Rightarrow> (r, w\<lparr>backend_state := b, requests := requests w @ [(tools, messages, r)]\<rparr>))"

text \<open>The loop \<^verbatim>\<open>for block in response.content\<close> of the \<^verbatim>\<open>tool_use\<close> branch.\<close>

fun tool_loop ::
  "'h agent \<Rightarrow> block list \<Rightarrow> tool_result list \<Rightarrow> ('h, 'b) world
     \<Rightarrow> (exception + tool_result list) \<times> ('h, 'b) world"
where
  "tool_loop self [] tool_results w = (Inr tool_results, w)"
| "tool_loop self (ToolUseBlock block_id tool_name tool_input # blocks) tool_results w =
     (case call_tool self tool_name tool_input w of
        (Inl e, w') \<Rightarrow> (Inl e, w')
      | (Inr result, w') \<Rightarrow>
          tool_loop self blocks
            (tool_results @ [\<lparr>tool_use_id = block_id, result_text = result\<rparr>]) w')"
| "tool_loop self (TextBlock t # blocks) tool_results w = tool_loop self blocks tool_results w"
| "tool_loop self (ThinkingBlock t # blocks) tool_results w =
     tool_loop self blocks tool_results w"

text \<open>The loop \<^verbatim>\<open>for block in response.content\<close> of the \<^verbatim>\<open>end_turn\<close> branch.\<close>

fun final_response_loop :: "block list \<Rightarrow> string \<Rightarrow> string" where
  "final_response_loop [] final_response = final_response"
| "final_response_loop (TextBlock t # blocks) final_response =
     final_response_loop blocks (final_response @ t)"
| "final_response_loop (ToolUseBlock block_id tool_name tool_input # blocks) final_response =
     final_response_loop blocks final_response"
| "final_response_loop (ThinkingBlock t # blocks) final_response =
     final_response_loop blocks final_response"

text \<open>
  The body of \<^verbatim>\<open>for iteration in range(max_iterations)\<close>. It raises (\<open>Inl e\<close>), returns a
  string (\<open>Inr (Some s)\<close>) or reaches its end (\<open>Inr None\<close>); with it come the list
  \<^verbatim>\<open>messages\<close> and the environment as the body leaves them.
\<close>

definition iteration ::
  "client_file \<Rightarrow> 'b backend \<Rightarrow> 'h agent \<Rightarrow> message list \<Rightarrow> ('h, 'b) world
     \<Rightarrow> (exception + string option) \<times> message list \<times> ('h, 'b) world"
where
  "iteration client backend self messages w =
     (case self_format_tools_for_claude client self of
        Inl e \<Rightarrow> (Inl e, messages, w)
      | Inr tools \<Rightarrow>
          (case messages_create backend tools messages w of
             (Inl e, w1) \<Rightarrow> (Inl e, messages, w1)
           | (Inr response, w1) \<Rightarrow>
               if stop_reason response = ''tool_use'' then
                 (let messages1 =
                        messages @
                          [\<lparr>msg_role = Assistant,
                            msg_content = Blocks (response_content response)\<rparr>]
                  in case tool_loop self (response_content response) [] w1 of
                       (Inl e, w2) \<Rightarrow> (Inl e, messages1, w2)
                     | (Inr tool_results, w2) \<Rightarrow>
                         (Inr None,
                          messages1 @
                            [\<lparr>msg_role = User, msg_content = ToolResults tool_results\<rparr>],
                          w2))
               else if stop_reason response = ''end_turn'' then
                 (Inr (Some (final_response_loop (response_content response) [])), messages, w1)
               else
                 (Inr (Some (''Agent stopped unexpectedly: '' @ stop_reason response)),
                  messages, w1)))"

text \<open>The \<^verbatim>\<open>for\<close> loop, on the number of iterations left, and the return after it.\<close>

fun agent_loop ::
  "client_file \<Rightarrow> 'b backend \<Rightarrow> 'h agent \<Rightarrow> nat \<Rightarrow> message list \<Rightarrow> ('h, 'b) world
     \<Rightarrow> (exception + string) \<times> message list \<times> ('h, 'b) world"
where
  "agent_loop client backend self 0 messages w =
     (Inr ''Agent reached maximum iterations without completing task'', messages, w)"
| "agent_loop client backend self (Suc n) messages w =
     (case iteration client backend self messages w of
        (Inl e, messages', w') \<Rightarrow> (Inl e, messages', w')
      | (Inr (Some s), messages', w') \<Rightarrow> (Inr s, messages', w')
      | (Inr None, messages', w') \<Rightarrow> agent_loop client backend self n messages' w')"

text \<open>
  \<^verbatim>\<open>range(max_iterations)\<close> is empty for a negative \<^verbatim>\<open>max_iterations\<close>. The result is what
  the call raises or returns, the list \<^verbatim>\<open>messages\<close> at that moment, and the environment.
\<close>

definition process_query ::
  "client_file \<Rightarrow> 'b backend \<Rightarrow> 'h agent \<Rightarrow> string \<Rightarrow> int \<Rightarrow> ('h, 'b) world
     \<Rightarrow> (exception + string) \<times> message list \<times> ('h, 'b) world"
where
  "process_query client backend self user_query max_iterations w =
     agent_loop client backend self (nat max_iterations)
       [\<lparr>msg_role = User, msg_content = PlainText user_query\<rparr>] w"

subsection \<open>What the properties speak about\<close>

text \<open>The tool-use blocks of a response content, in order: id, name and input of each.\<close>

fun tool_use_blocks :: "block list \<Rightarrow> (string \<times> string \<times> json) list" where
  "tool_use_blocks [] = []"
| "tool_use_blocks (ToolUseBlock block_id tool_name tool_input # blocks) =
     (block_id, tool_name, tool_input) # tool_use_blocks blocks"
| "tool_use_blocks (TextBlock t # blocks) = tool_use_blocks blocks"
| "tool_use_blocks (ThinkingBlock t # blocks) = tool_use_blocks blocks"

text \<open>The texts of the text blocks of a response content, in order.\<close>

fun text_blocks :: "block list \<Rightarrow> string list" where
  "text_blocks [] = []"
| "text_blocks (TextBlock t # blocks) = t # text_blocks blocks"
| "text_blocks (ToolUseBlock block_id tool_name tool_input # blocks) = text_blocks blocks"
| "text_blocks (ThinkingBlock t # blocks) = text_blocks blocks"

text \<open>The calls that a run from \<open>w\<close> to \<open>w'\<close> has added.\<close>

definition new_requests ::
  "('h, 'b) world \<Rightarrow> ('h, 'b) world
     \<Rightarrow> (claude_tool list \<times> message list \<times> (exception + response)) list"
where
  "new_requests w w' = drop (length (requests w)) (requests w')"

definition new_tool_calls ::
  "('h, 'b) world \<Rightarrow> ('h, 'b) world \<Rightarrow> (string \<times> json \<times> (exception + string)) list"
where
  "new_tool_calls w w' = drop (length (tool_calls w)) (tool_calls w')"

definition is_tool_use :: "claude_tool list \<times> message list \<times> (exception + response) \<Rightarrow> bool" where
  "is_tool_use rq = (case snd (snd rq) of Inl e \<Rightarrow> False | Inr r \<Rightarrow> stop_reason r = ''tool_use'')"

text \<open>
  The ids of a list of tool results answer the tool-use blocks of a response content: as
  many results as tool-use blocks, the k-th result with the id of the k-th block.
\<close>

definition answers :: "block list \<Rightarrow> tool_result list \<Rightarrow> bool" where
  "answers blocks tool_results =
     (map tool_use_id tool_results = map fst (tool_use_blocks blocks))"

text \<open>
  A list of messages made of turns: an assistant message with blocks, then a user message
  with the tool results that answer these blocks.
\<close>

fun turns :: "message list \<Rightarrow> bool" where
  "turns [] = True"
| "turns [m] = False"
| "turns (a # r # ms) =
     (case (msg_role a, msg_content a, msg_role r, msg_content r) of
        (Assistant, Blocks blocks, User, ToolResults tool_results) \<Rightarrow>
          answers blocks tool_results \<and> turns ms
      | _ \<Rightarrow> False)"

definition user_message :: "string \<Rightarrow> message" where
  "user_message user_query = \<lparr>msg_role = User, msg_content = PlainText user_query\<rparr>"

text \<open>
  What section 4.3 of the specification says of a successful call: the text of the first
  text-bearing element, and the stringified result when there is none.
\<close>

fun first_text :: "content_item list \<Rightarrow> string option" where
  "first_text [] = None"
| "first_text (TextContent t # items) = Some t"
| "first_text (NonTextContent cls # items) = first_text items"

definition spec_payload :: "host_result \<Rightarrow> string" where
  "spec_payload result =
     (case result_content result of
        None \<Rightarrow> result_str result
      | Some items \<Rightarrow> (case first_text items of Some t \<Rightarrow> t | None \<Rightarrow> result_str result))"

subsection \<open>Scenarios\<close>

text \<open>
  A backend that answers from a script, its state the number of requests so far, and
  four sessions: one that returns a text, one whose tool fails, one that returns an
  image before a text, one that returns an image alone.
\<close>

definition scripted :: "(exception + response) list \<Rightarrow> nat backend" where
  "scripted script n tools messages =
     ((if n < length script then script ! n
       else Inl (Exception ''APIError'' ''no response left'')), Suc n)"

definition qr_session :: "unit session" where
  "qr_session h tool_name tool_input =
     (Inr \<lparr>result_content = Some [TextContent ''qr.png''], result_str = ''content=[...]''\<rparr>, h)"

definition failing_session :: "unit session" where
  "failing_session h tool_name tool_input = (Inl (Exception ''McpError'' ''invalid color''), h)"

definition image_result :: host_result where
  "image_result =
     \<lparr>result_content = Some [NonTextContent ''ImageContent'', TextContent ''done''],
      result_str = ''content=[...]''\<rparr>"

definition image_session :: "unit session" where
  "image_session h tool_name tool_input = (Inr image_result, h)"

definition image_only_result :: host_result where
  "image_only_result =
     \<lparr>result_content = Some [NonTextContent ''ImageContent''], result_str = ''content=[...]''\<rparr>"

definition image_only_session :: "unit session" where
  "image_only_session h tool_name tool_input = (Inr image_only_result, h)"

definition qr_tool :: tool where
  "qr_tool = \<lparr>mcp_name = ''generate_qr_code'', mcp_description = ''Generate a QR code'',
              mcp_inputSchema = JObject [(''type'', JString ''object'')]\<rparr>"

definition qr_agent :: "unit session \<Rightarrow> unit agent" where
  "qr_agent s = \<lparr>session = Some s, available_tools = [qr_tool]\<rparr>"

definition qr_use :: block where
  "qr_use = ToolUseBlock ''toolu_1'' ''generate_qr_code''
              (JObject [(''url'', JString ''https://example.com'')])"

definition tool_use_response :: response where
  "tool_use_response =
     \<lparr>stop_reason = ''tool_use'', response_content = [TextBlock ''I will make it.'', qr_use]\<rparr>"

definition end_turn_response :: response where
  "end_turn_response =
     \<lparr>stop_reason = ''end_turn'',
      response_content = [TextBlock ''Here is '', ThinkingBlock ''hm'', TextBlock ''your QR code.'']\<rparr>"

definition max_tokens_response :: response where
  "max_tokens_response = \<lparr>stop_reason = ''max_tokens'', response_content = [TextBlock ''Here'']\<rparr>"

definition world0 :: "(unit, nat) world" where
  "world0 = \<lparr>host_state = (), backend_state = 0, tool_calls = [], requests = []\<rparr>"

definition two_tools_response :: response where
  "two_tools_response =
     \<lparr>stop_reason = ''tool_use'',
      response_content =
        [ToolUseBlock ''toolu_1'' ''generate_thumbnail'' (JObject [(''text'', JString ''AI'')]),
         TextBlock ''and'',
         ToolUseBlock ''toolu_2'' ''generate_qr_code''
           (JObject [(''url'', JString ''https://example.com'')])]\<rparr>"

definition qr_tools :: "claude_tool list" where
  "qr_tools = [\<lparr>name = ''generate_qr_code'', description = ''Generate a QR code'',
                input_schema = JObject [(''type'', JString ''object'')]\<rparr>]"

text \<open>
  Three runs of \<^verbatim>\<open>process_query\<close> on the first client file: the tool succeeds and the model
  ends its turn; the tool fails and the backend raises at the second request; a budget of
  one iteration and a model that asks for a tool.
\<close>

definition scenario_a :: "(exception + string) \<times> message list \<times> (unit, nat) world" where
  "scenario_a =
     process_query Hyphen_file (scripted [Inr tool_use_response, Inr end_turn_response])
       (qr_agent qr_session) ''Generate a QR code'' 10 world0"

definition scenario_b :: "(exception + string) \<times> message list \<times> (unit, nat) world" where
  "scenario_b =
     process_query Hyphen_file (scripted [Inr tool_use_response])
       (qr_agent failing_session) ''Generate a QR code'' 10 world0"

definition scenario_c :: "(exception + string) \<times> message list \<times> (unit, nat) world" where
  "scenario_c =
     process_query Hyphen_file (scripted [Inr tool_use_response, Inr tool_use_response])
       (qr_agent qr_session) ''Generate a QR code'' 1 world0"

section \<open>Properties\<close>

subsection \<open>The loops and the body of the agent loop\<close>

lemma format_tools_loop_map:
  "format_tools_loop ts acc =
     acc @ map (\<lambda>t. \<lparr>name = mcp_name t, description = mcp_description t, input_schema = mcp_inputSchema t\<rparr>) ts"
  by (induction ts arbitrary: acc) simp_all

lemma call_tool_result:
  "call_tool self tool_name tool_input w =
     (case call_tool_try self tool_name tool_input w of
        (out, w') \<Rightarrow>
          (Inr (case out of Inl e \<Rightarrow> call_tool_except e | Inr s \<Rightarrow> s),
           w'\<lparr>tool_calls := tool_calls w' @
               [(tool_name, tool_input, Inr (case out of Inl e \<Rightarrow> call_tool_except e | Inr s \<Rightarrow> s))]\<rparr>))"
  by (simp add: call_tool_def Let_def split: prod.splits sum.splits)

lemma session_call_tool_logs:
  "session_call_tool self tool_name tool_input w = (r, w') \<Longrightarrow>
     tool_calls w' = tool_calls w \<and> requests w' = requests w \<and> backend_state w' = backend_state w"
  by (auto simp: session_call_tool_def split: option.splits prod.splits)

lemma call_tool_try_logs:
  "call_tool_try self tool_name tool_input w = (r, w') \<Longrightarrow>
     tool_calls w' = tool_calls w \<and> requests w' = requests w \<and> backend_state w' = backend_state w"
  by (auto simp: call_tool_try_def split: prod.splits sum.splits dest: session_call_tool_logs)

lemma call_tool_returns:
  "\<exists>s w'. call_tool self tool_name tool_input w = (Inr s, w') \<and>
     tool_calls w' = tool_calls w @ [(tool_name, tool_input, Inr s)] \<and>
     requests w' = requests w \<and> backend_state w' = backend_state w"
proof -
  obtain out w1 where t: "call_tool_try self tool_name tool_input w = (out, w1)"
    by (cases "call_tool_try self tool_name tool_input w")
  from call_tool_try_logs [OF t] show ?thesis
    by (simp add: call_tool_result t)
qed

lemma tool_loop_returns:
  "\<exists>rs w'. tool_loop self blocks acc w = (Inr (acc @ rs), w') \<and>
     map tool_use_id rs = map fst (tool_use_blocks blocks) \<and>
     requests w' = requests w \<and> backend_state w' = backend_state w \<and>
     (\<exists>new. tool_calls w' = tool_calls w @ new \<and>
        map (\<lambda>(n, i, r). (n, i)) new = map snd (tool_use_blocks blocks) \<and>
        map (\<lambda>(n, i, r). r) new = map (\<lambda>r. Inr (result_text r)) rs)"
proof (induction blocks arbitrary: acc w)
  case Nil
  then show ?case by simp
next
  case (Cons b blocks)
  show ?case
  proof (cases b)
    case (TextBlock t)
    with Cons.IH [of acc w] show ?thesis by simp
  next
    case (ThinkingBlock t)
    with Cons.IH [of acc w] show ?thesis by simp
  next
    case (ToolUseBlock block_id tool_name tool_input)
    obtain s w1 where c: "call_tool self tool_name tool_input w = (Inr s, w1)"
      and l: "tool_calls w1 = tool_calls w @ [(tool_name, tool_input, Inr s)]"
      and r: "requests w1 = requests w" "backend_state w1 = backend_state w"
      using call_tool_returns [of self tool_name tool_input w] by blast
    obtain rs w' new where
      t: "tool_loop self blocks (acc @ [\<lparr>tool_use_id = block_id, result_text = s\<rparr>]) w1 =
            (Inr ((acc @ [\<lparr>tool_use_id = block_id, result_text = s\<rparr>]) @ rs), w')"
      and ids: "map tool_use_id rs = map fst (tool_use_blocks blocks)"
      and rq: "requests w' = requests w1" "backend_state w' = backend_state w1"
      and tc: "tool_calls w' = tool_calls w1 @ new"
        "map (\<lambda>(n, i, r). (n, i)) new = map snd (tool_use_blocks blocks)"
        "map (\<lambda>(n, i, r). r) new = map (\<lambda>r. Inr (result_text r)) rs"
      using Cons.IH [of "acc @ [\<lparr>tool_use_id = block_id, result_text = s\<rparr>]" w1] by blast
    show ?thesis
      apply (rule exI [of _ "\<lparr>tool_use_id = block_id, result_text = s\<rparr> # rs"])
      apply (rule exI [of _ w'])
      using ToolUseBlock c t ids rq r l tc
      apply simp
      done
  qed
qed

lemma iteration_cases:
  obtains
    (lookup) e where
      "self_format_tools_for_claude client self = Inl e"
      "iteration client backend self messages w = (Inl e, messages, w)"
  | (raise) tools e b where
      "self_format_tools_for_claude client self = Inr tools"
      "backend (backend_state w) tools messages = (Inl e, b)"
      "iteration client backend self messages w =
         (Inl e, messages,
          w\<lparr>backend_state := b, requests := requests w @ [(tools, messages, Inl e)]\<rparr>)"
  | (tool_use) tools resp b rs w2 new where
      "self_format_tools_for_claude client self = Inr tools"
      "backend (backend_state w) tools messages = (Inr resp, b)"
      "stop_reason resp = ''tool_use''"
      "iteration client backend self messages w =
         (Inr None,
          messages @ [\<lparr>msg_role = Assistant, msg_content = Blocks (response_content resp)\<rparr>,
                      \<lparr>msg_role = User, msg_content = ToolResults rs\<rparr>], w2)"
      "map tool_use_id rs = map fst (tool_use_blocks (response_content resp))"
      "requests w2 = requests w @ [(tools, messages, Inr resp)]"
      "tool_calls w2 = tool_calls w @ new"
      "map (\<lambda>(n, i, r). (n, i)) new = map snd (tool_use_blocks (response_content resp))"
      "map (\<lambda>(n, i, r). r) new = map (\<lambda>r. Inr (result_text r)) rs"
  | (end_turn) tools resp b where
      "self_format_tools_for_claude client self = Inr tools"
      "backend (backend_state w) tools messages = (Inr resp, b)"
      "stop_reason resp = ''end_turn''"
      "iteration client backend self messages w =
         (Inr (Some (final_response_loop (response_content resp) [])), messages,
          w\<lparr>backend_state := b, requests := requests w @ [(tools, messages, Inr resp)]\<rparr>)"
  | (other) tools resp b where
      "self_format_tools_for_claude client self = Inr tools"
      "backend (backend_state w) tools messages = (Inr resp, b)"
      "stop_reason resp \<noteq> ''tool_use''" "stop_reason resp \<noteq> ''end_turn''"
      "iteration client backend self messages w =
         (Inr (Some (''Agent stopped unexpectedly: '' @ stop_reason resp)), messages,
          w\<lparr>backend_state := b, requests := requests w @ [(tools, messages, Inr resp)]\<rparr>)"
proof (cases "self_format_tools_for_claude client self")
  case (Inl e)
  then have "iteration client backend self messages w = (Inl e, messages, w)"
    by (simp add: iteration_def)
  with Inl show ?thesis by (rule lookup)
next
  case (Inr tools)
  obtain r b where bk: "backend (backend_state w) tools messages = (r, b)"
    by (cases "backend (backend_state w) tools messages")
  have mc: "messages_create backend tools messages w =
     (r, w\<lparr>backend_state := b, requests := requests w @ [(tools, messages, r)]\<rparr>)"
    using bk by (simp add: messages_create_def)
  show ?thesis
  proof (cases r)
    case (Inl e)
    have "iteration client backend self messages w =
         (Inl e, messages,
          w\<lparr>backend_state := b, requests := requests w @ [(tools, messages, Inl e)]\<rparr>)"
      using Inr mc Inl by (simp add: iteration_def)
    with Inr bk Inl show ?thesis using raise by blast
  next
    case r: (Inr resp)
    let ?w1 = "w\<lparr>backend_state := b, requests := requests w @ [(tools, messages, Inr resp)]\<rparr>"
    consider "stop_reason resp = ''tool_use''" | "stop_reason resp \<noteq> ''tool_use''" "stop_reason resp = ''end_turn''"
      | "stop_reason resp \<noteq> ''tool_use''" "stop_reason resp \<noteq> ''end_turn''" by blast
    then show ?thesis
    proof cases
      case 1
      obtain rs w2 new where
        t: "tool_loop self (response_content resp) [] ?w1 = (Inr ([] @ rs), w2)"
        and ids: "map tool_use_id rs = map fst (tool_use_blocks (response_content resp))"
        and rq: "requests w2 = requests ?w1"
        and tc: "tool_calls w2 = tool_calls ?w1 @ new"
          "map (\<lambda>(n, i, r). (n, i)) new = map snd (tool_use_blocks (response_content resp))"
          "map (\<lambda>(n, i, r). r) new = map (\<lambda>r. Inr (result_text r)) rs"
        using tool_loop_returns [of self "response_content resp" "[]" ?w1] by blast
      have it: "iteration client backend self messages w =
         (Inr None,
          messages @ [\<lparr>msg_role = Assistant, msg_content = Blocks (response_content resp)\<rparr>,
                      \<lparr>msg_role = User, msg_content = ToolResults rs\<rparr>], w2)"
        using Inr mc r 1 t by (simp add: iteration_def)
      show ?thesis
        using tool_use [OF Inr _ 1 it ids _ _ tc(2,3)] bk r rq tc(1) by simp
    next
      case 2
      have "iteration client backend self messages w =
         (Inr (Some (final_response_loop (response_content resp) [])), messages, ?w1)"
        using Inr mc r 2 by (simp add: iteration_def)
      then show ?thesis using end_turn Inr bk r 2 by blast
    next
      case 3
      have "iteration client backend self messages w =
         (Inr (Some (''Agent stopped unexpectedly: '' @ stop_reason resp)), messages, ?w1)"
        using Inr mc r 3 by (simp add: iteration_def)
      then show ?thesis using other Inr bk r 3 by blast
    qed
  qed
qed


lemma agent_loop_turns:
  "agent_loop client backend self n messages w = (out, messages', w') \<Longrightarrow>
     \<exists>rest. messages' = messages @ rest \<and> turns rest"
proof (induction n arbitrary: messages w)
  case 0
  then show ?case by simp
next
  case (Suc n)
  show ?case
  proof (cases rule: iteration_cases [where client = client and self = self and backend = backend and messages = messages and w = w])
    case (lookup e)
    with Suc.prems show ?thesis by simp
  next
    case (raise tools e b)
    with Suc.prems show ?thesis by simp
  next
    case (tool_use tools resp b rs w2 new)
    let ?a = "\<lparr>msg_role = Assistant, msg_content = Blocks (response_content resp)\<rparr>"
    let ?r = "\<lparr>msg_role = User, msg_content = ToolResults rs\<rparr>"
    from Suc.prems tool_use(4)
    have "agent_loop client backend self n (messages @ [?a, ?r]) w2 = (out, messages', w')"
      by simp
    from Suc.IH [OF this] obtain rest where
      "messages' = (messages @ [?a, ?r]) @ rest" "turns rest" by blast
    with tool_use(5) have "messages' = messages @ (?a # ?r # rest) \<and> turns (?a # ?r # rest)"
      by (simp add: answers_def)
    then show ?thesis by blast
  next
    case (end_turn tools resp b)
    with Suc.prems show ?thesis by simp
  next
    case (other tools resp b)
    with Suc.prems show ?thesis by simp
  qed
qed

lemma agent_loop_requests:
  "agent_loop client backend self n messages w = (out, messages', w') \<Longrightarrow>
     \<exists>new. requests w' = requests w @ new \<and> length new \<le> n \<and>
       (length new = n \<and> list_all is_tool_use new \<longrightarrow>
          out = Inr ''Agent reached maximum iterations without completing task'')"
proof (induction n arbitrary: messages w)
  case 0
  then show ?case by simp
next
  case (Suc n)
  show ?case
  proof (cases rule: iteration_cases [where client = client and self = self and backend = backend and messages = messages and w = w])
    case (lookup e)
    with Suc.prems show ?thesis by simp
  next
    case (raise tools e b)
    with Suc.prems show ?thesis by (auto simp: is_tool_use_def)
  next
    case (tool_use tools resp b rs w2 new)
    let ?a = "\<lparr>msg_role = Assistant, msg_content = Blocks (response_content resp)\<rparr>"
    let ?r = "\<lparr>msg_role = User, msg_content = ToolResults rs\<rparr>"
    from Suc.prems tool_use(4)
    have "agent_loop client backend self n (messages @ [?a, ?r]) w2 = (out, messages', w')"
      by simp
    from Suc.IH [OF this] obtain new' where
      n: "requests w' = requests w2 @ new'" "length new' \<le> n"
        "length new' = n \<and> list_all is_tool_use new' \<longrightarrow>
           out = Inr ''Agent reached maximum iterations without completing task''" by blast
    show ?thesis
      apply (rule exI [of _ "(tools, messages, Inr resp) # new'"])
      using n tool_use(6) by simp
  next
    case (end_turn tools resp b)
    with Suc.prems show ?thesis by (auto simp: is_tool_use_def)
  next
    case (other tools resp b)
    with Suc.prems show ?thesis by (auto simp: is_tool_use_def)
  qed
qed

lemma agent_loop_raised_by:
  "agent_loop client backend self n messages w = (Inl e, messages', w') \<Longrightarrow>
     \<exists>new. requests w' = requests w @ new \<and>
       (self_format_tools_for_claude client self = Inl e \<or>
        (\<exists>tools m. (tools, m, Inl e) \<in> set new))"
proof (induction n arbitrary: messages w)
  case 0
  then show ?case by simp
next
  case (Suc n)
  show ?case
  proof (cases rule: iteration_cases [where client = client and self = self
      and backend = backend and messages = messages and w = w])
    case (lookup e')
    with Suc.prems show ?thesis by simp
  next
    case (raise tools e' b)
    with Suc.prems show ?thesis by force
  next
    case (tool_use tools resp b rs w2 new)
    let ?a = "\<lparr>msg_role = Assistant, msg_content = Blocks (response_content resp)\<rparr>"
    let ?r = "\<lparr>msg_role = User, msg_content = ToolResults rs\<rparr>"
    from Suc.prems tool_use(4)
    have "agent_loop client backend self n (messages @ [?a, ?r]) w2 = (Inl e, messages', w')"
      by simp
    from Suc.IH [OF this] obtain new' where
      n: "requests w' = requests w2 @ new'"
        "self_format_tools_for_claude client self = Inl e \<or>
         (\<exists>tools m. (tools, m, Inl e) \<in> set new')" by blast
    show ?thesis
      apply (rule exI [of _ "(tools, messages, Inr resp) # new'"])
      using n tool_use(6) by auto
  next
    case (end_turn tools resp b)
    with Suc.prems show ?thesis by simp
  next
    case (other tools resp b)
    with Suc.prems show ?thesis by simp
  qed
qed

lemma agent_loop_once:
  assumes "agent_loop client backend self (Suc 0) messages w = (out, messages', w')"
    and "requests w' = requests w @ [(tools, m, Inr resp)]"
    and "stop_reason resp = ''tool_use''"
  shows "\<exists>tool_results.
     messages' = messages @
       [\<lparr>msg_role = Assistant, msg_content = Blocks (response_content resp)\<rparr>,
        \<lparr>msg_role = User, msg_content = ToolResults tool_results\<rparr>] \<and>
     answers (response_content resp) tool_results"
proof (cases rule: iteration_cases [where client = client and self = self
    and backend = backend and messages = messages and w = w])
  case (lookup e)
  with assms show ?thesis by auto
next
  case (raise tools' e b)
  with assms show ?thesis by auto
next
  case (tool_use tools' resp' b rs w2 new)
  with assms show ?thesis by (auto simp: answers_def)
next
  case (end_turn tools' resp' b)
  with assms show ?thesis by auto
next
  case (other tools' resp' b)
  with assms show ?thesis by auto
qed

lemma agent_loop_prefix:
  "agent_loop client backend self n messages w = (out, messages', w') \<Longrightarrow>
     \<exists>new. requests w' = requests w @ new \<and> prefix messages messages' \<and>
       (\<forall>rq \<in> set new. prefix messages (fst (snd rq)) \<and> prefix (fst (snd rq)) messages') \<and>
       sorted_wrt (\<lambda>a b. strict_prefix (fst (snd a)) (fst (snd b))) new \<and>
       (new \<noteq> [] \<longrightarrow> fst (snd (hd new)) = messages)"
proof (induction n arbitrary: messages w)
  case 0
  then show ?case by simp
next
  case (Suc n)
  show ?case
  proof (cases rule: iteration_cases [where client = client and self = self and backend = backend and messages = messages and w = w])
    case (lookup e)
    with Suc.prems show ?thesis by simp
  next
    case (raise tools e b)
    with Suc.prems show ?thesis by auto
  next
    case (tool_use tools resp b rs w2 new)
    let ?a = "\<lparr>msg_role = Assistant, msg_content = Blocks (response_content resp)\<rparr>"
    let ?r = "\<lparr>msg_role = User, msg_content = ToolResults rs\<rparr>"
    from Suc.prems tool_use(4)
    have "agent_loop client backend self n (messages @ [?a, ?r]) w2 = (out, messages', w')"
      by simp
    from Suc.IH [OF this] obtain new' where
      n: "requests w' = requests w2 @ new'" "prefix (messages @ [?a, ?r]) messages'"
        "\<forall>rq \<in> set new'. prefix (messages @ [?a, ?r]) (fst (snd rq)) \<and> prefix (fst (snd rq)) messages'"
        "sorted_wrt (\<lambda>a b. strict_prefix (fst (snd a)) (fst (snd b))) new'"
      by blast
    have p: "prefix messages messages'" using n(2) by (rule append_prefixD)
    have s: "strict_prefix messages (fst (snd rq))" if "rq \<in> set new'" for rq
    proof -
      from n(3) that have "prefix (messages @ [?a, ?r]) (fst (snd rq))" by blast
      then obtain zs where "fst (snd rq) = (messages @ [?a, ?r]) @ zs" by (auto simp: prefix_def)
      then show ?thesis by (simp add: strict_prefix_def prefix_def)
    qed
    have q: "prefix messages (fst (snd rq))" if "rq \<in> set new'" for rq
      using s [OF that] by (simp add: strict_prefix_def)
    show ?thesis
      apply (rule exI [of _ "(tools, messages, Inr resp) # new'"])
      using n(1,3,4) p s q tool_use(6) by simp
  next
    case (end_turn tools resp b)
    with Suc.prems show ?thesis by auto
  next
    case (other tools resp b)
    with Suc.prems show ?thesis by auto
  qed
qed

lemma tool_loop_append:
  "tool_loop self (pre @ post) acc w =
     (case tool_loop self pre acc w of
        (Inl e, w1) \<Rightarrow> (Inl e, w1)
      | (Inr rs, w1) \<Rightarrow> tool_loop self post rs w1)"
proof (induction pre arbitrary: acc w)
  case Nil
  then show ?case by simp
next
  case (Cons b pre)
  show ?case
  proof (cases b)
    case (TextBlock t)
    with Cons.IH show ?thesis by simp
  next
    case (ThinkingBlock t)
    with Cons.IH show ?thesis by simp
  next
    case (ToolUseBlock block_id tool_name tool_input)
    with Cons.IH show ?thesis
      by (simp split: prod.splits sum.splits)
  qed
qed

lemma tool_loop_reaches_results:
  "\<exists>rs1 rs2 w1 w2.
     tool_loop self pre acc w = (Inr (acc @ rs1), w1) \<and>
     tool_loop self (pre @ ToolUseBlock block_id tool_name tool_input # post) acc w =
       (Inr (acc @ rs1 @
          \<lparr>tool_use_id = block_id,
            result_text =
              (case fst (call_tool_try self tool_name tool_input w1) of
                 Inl e \<Rightarrow>
                   json_dumps [(''status'', ''error''),
                               (''message'', ''Tool execution failed: '' @ exc_str e)]
               | Inr s \<Rightarrow> s)\<rparr> # rs2), w2)"
proof -
  obtain rs1 w1 where p: "tool_loop self pre acc w = (Inr (acc @ rs1), w1)"
    using tool_loop_returns [of self pre acc w] by blast
  let ?r = "\<lparr>tool_use_id = block_id,
            result_text =
              (case fst (call_tool_try self tool_name tool_input w1) of
                 Inl e \<Rightarrow>
                   json_dumps [(''status'', ''error''),
                               (''message'', ''Tool execution failed: '' @ exc_str e)]
               | Inr s \<Rightarrow> s)\<rparr>"
  have c: "fst (call_tool self tool_name tool_input w1) = Inr (result_text ?r)"
    by (cases "call_tool_try self tool_name tool_input w1")
      (simp add: call_tool_result call_tool_except_def split: sum.splits)
  obtain wc where cc: "call_tool self tool_name tool_input w1 = (Inr (result_text ?r), wc)"
    using c by (cases "call_tool self tool_name tool_input w1") simp
  obtain rs2 w2 where q: "tool_loop self post ((acc @ rs1) @ [?r]) wc =
      (Inr (((acc @ rs1) @ [?r]) @ rs2), w2)"
    using tool_loop_returns [of self post "(acc @ rs1) @ [?r]" wc] by blast
  have "tool_loop self (pre @ ToolUseBlock block_id tool_name tool_input # post) acc w =
      (Inr (acc @ rs1 @ ?r # rs2), w2)"
    using p cc q by (simp add: tool_loop_append)
  with p show ?thesis by blast
qed

lemma iteration_appends_payload:
  assumes "self_format_tools_for_claude client self = Inr tools"
    and "backend (backend_state w) tools messages = (Inr resp, b)"
    and "stop_reason resp = ''tool_use''"
    and "response_content resp = pre @ ToolUseBlock block_id tool_name tool_input # post"
  shows "\<exists>rs1 rs2 w1 w2.
     tool_loop self pre []
         (w\<lparr>backend_state := b, requests := requests w @ [(tools, messages, Inr resp)]\<rparr>) =
       (Inr rs1, w1) \<and>
     iteration client backend self messages w =
       (Inr None,
        messages @
          [\<lparr>msg_role = Assistant, msg_content = Blocks (response_content resp)\<rparr>,
           \<lparr>msg_role = User,
            msg_content = ToolResults
              (rs1 @
               \<lparr>tool_use_id = block_id,
                 result_text =
                   (case fst (call_tool_try self tool_name tool_input w1) of
                      Inl e \<Rightarrow>
                        json_dumps [(''status'', ''error''),
                                    (''message'', ''Tool execution failed: '' @ exc_str e)]
                    | Inr s \<Rightarrow> s)\<rparr> # rs2)\<rparr>], w2)"
proof -
  let ?w = "w\<lparr>backend_state := b, requests := requests w @ [(tools, messages, Inr resp)]\<rparr>"
  have mc: "messages_create backend tools messages w = (Inr resp, ?w)"
    using assms(2) by (simp add: messages_create_def)
  from tool_loop_reaches_results [of self pre "[]" ?w block_id tool_name tool_input post]
  obtain rs1 rs2 w1 w2 where
    p: "tool_loop self pre [] ?w = (Inr rs1, w1)" and
    q: "tool_loop self (pre @ ToolUseBlock block_id tool_name tool_input # post) [] ?w =
       (Inr (rs1 @
          \<lparr>tool_use_id = block_id,
            result_text =
              (case fst (call_tool_try self tool_name tool_input w1) of
                 Inl e \<Rightarrow>
                   json_dumps [(''status'', ''error''),
                               (''message'', ''Tool execution failed: '' @ exc_str e)]
               | Inr s \<Rightarrow> s)\<rparr> # rs2), w2)"
    by auto
  have "iteration client backend self messages w =
       (Inr None,
        messages @
          [\<lparr>msg_role = Assistant, msg_content = Blocks (response_content resp)\<rparr>,
           \<lparr>msg_role = User,
            msg_content = ToolResults
              (rs1 @
               \<lparr>tool_use_id = block_id,
                 result_text =
                   (case fst (call_tool_try self tool_name tool_input w1) of
                      Inl e \<Rightarrow>
                        json_dumps [(''status'', ''error''),
                                    (''message'', ''Tool execution failed: '' @ exc_str e)]
                    | Inr s \<Rightarrow> s)\<rparr> # rs2)\<rparr>], w2)"
    using assms(1,3) mc q by (simp add: iteration_def assms(4) Let_def)
  with p show ?thesis by blast
qed

lemma agent_loop_keeps_messages:
  "prefix messages (fst (snd (agent_loop client backend self n messages w)))"
proof -
  obtain out messages' w' where
    r: "agent_loop client backend self n messages w = (out, messages', w')"
    by (cases "agent_loop client backend self n messages w")
  from agent_loop_prefix [OF r] show ?thesis by (auto simp: r)
qed

lemma requests_new_requests:
  "requests w' = requests w @ new \<Longrightarrow> new_requests w w' = new"
  by (simp add: new_requests_def)

lemma tool_calls_new_tool_calls:
  "tool_calls w' = tool_calls w @ new \<Longrightarrow> new_tool_calls w w' = new"
  by (simp add: new_tool_calls_def)

lemma final_response_loop_concat:
  "final_response_loop blocks final_response = final_response @ concat (text_blocks blocks)"
  by (induction blocks final_response rule: final_response_loop.induct) simp_all

lemma process_query_agent_loop:
  "process_query client backend self user_query max_iterations w =
     agent_loop client backend self (nat max_iterations) [user_message user_query] w"
  by (simp add: process_query_def user_message_def)

subsection \<open>The claims\<close>

text \<open>
  Claim C1. In the list \<^verbatim>\<open>messages\<close> of every call of \<^verbatim>\<open>process_query\<close>, at its return or
  at the moment it raises, the query message is followed by whole turns only: an
  assistant message with the blocks of a \<^verbatim>\<open>tool_use\<close> response and, right after it, one
  user message of tool results whose ids are the ids of the tool-use blocks of that
  assistant message, one result for each block, in the order of the blocks. So no result
  has an id without its tool-use block, and no tool-use block is left without its result.
\<close>

theorem tool_results_answer_tool_uses:
  "case process_query client backend self user_query max_iterations w of
     (out, messages, w') \<Rightarrow>
       messages \<noteq> [] \<and> hd messages = user_message user_query \<and> turns (tl messages)"
proof -
  obtain out messages w' where
    r: "process_query client backend self user_query max_iterations w = (out, messages, w')"
    by (cases "process_query client backend self user_query max_iterations w")
  then have "agent_loop client backend self (nat max_iterations) [user_message user_query] w =
      (out, messages, w')"
    by (simp add: process_query_agent_loop)
  from agent_loop_turns [OF this] obtain rest where
    "messages = [user_message user_query] @ rest" "turns rest" by blast
  with r show ?thesis by simp
qed

text \<open>
  Claim C2. \<^verbatim>\<open>call_tool\<close> never raises: it returns what its \<^verbatim>\<open>try\<close> block returns, and when
  the call of the session or the reading of the payload raises \<open>e\<close> it returns the
  serialization of \<^verbatim>\<open>{"status": "error", "message": "Tool execution failed: " + str(e)}\<close>.
  The tool loop appends that string under the id of the block as it appends any other
  result, and the string reaches the transcript: in an iteration whose \<^verbatim>\<open>tool_use\<close>
  response holds a tool-use block at any place, the user message of tool results that the
  iteration appends holds, after the results of the earlier blocks, the result with the
  id of that block and with what \<^verbatim>\<open>call_tool\<close> gave for it (the error payload when the
  call raised), and the list \<^verbatim>\<open>messages\<close> at the end of the loop starts with the messages
  up to that one. An exception that leaves \<^verbatim>\<open>process_query\<close> was raised by the lookup of
  \<^verbatim>\<open>format_tools_for_claude\<close> or by a request to the backend made in this run, never by a
  tool.
\<close>

theorem tool_failure_never_raises:
  "fst (call_tool self tool_name tool_input w) =
     Inr (case fst (call_tool_try self tool_name tool_input w) of
            Inl e \<Rightarrow>
              json_dumps [(''status'', ''error''),
                          (''message'', ''Tool execution failed: '' @ exc_str e)]
          | Inr s \<Rightarrow> s) \<and>
   tool_loop self (ToolUseBlock block_id tool_name tool_input # blocks) tool_results w =
     tool_loop self blocks
       (tool_results @
        [\<lparr>tool_use_id = block_id,
          result_text =
            (case fst (call_tool_try self tool_name tool_input w) of
               Inl e \<Rightarrow>
                 json_dumps [(''status'', ''error''),
                             (''message'', ''Tool execution failed: '' @ exc_str e)]
             | Inr s \<Rightarrow> s)\<rparr>])
       (snd (call_tool self tool_name tool_input w)) \<and>
   (self_format_tools_for_claude client self = Inr tools \<and>
    backend (backend_state w0) tools messages = (Inr resp, b) \<and>
    stop_reason resp = ''tool_use'' \<and>
    response_content resp = pre @ ToolUseBlock block_id tool_name tool_input # post \<longrightarrow>
      (\<exists>rs1 rs2 w1 w2.
         tool_loop self pre []
             (w0\<lparr>backend_state := b,
                 requests := requests w0 @ [(tools, messages, Inr resp)]\<rparr>) =
           (Inr rs1, w1) \<and>
         iteration client backend self messages w0 =
           (Inr None,
            messages @
              [\<lparr>msg_role = Assistant, msg_content = Blocks (response_content resp)\<rparr>,
               \<lparr>msg_role = User,
                msg_content = ToolResults
                  (rs1 @
                   \<lparr>tool_use_id = block_id,
                     result_text =
                       (case fst (call_tool_try self tool_name tool_input w1) of
                          Inl e \<Rightarrow>
                            json_dumps [(''status'', ''error''),
                                        (''message'', ''Tool execution failed: '' @ exc_str e)]
                        | Inr s \<Rightarrow> s)\<rparr> # rs2)\<rparr>], w2) \<and>
         prefix
           (messages @
              [\<lparr>msg_role = Assistant, msg_content = Blocks (response_content resp)\<rparr>,
               \<lparr>msg_role = User,
                msg_content = ToolResults
                  (rs1 @
                   \<lparr>tool_use_id = block_id,
                     result_text =
                       (case fst (call_tool_try self tool_name tool_input w1) of
                          Inl e \<Rightarrow>
                            json_dumps [(''status'', ''error''),
                                        (''message'', ''Tool execution failed: '' @ exc_str e)]
                        | Inr s \<Rightarrow> s)\<rparr> # rs2)\<rparr>])
           (fst (snd (agent_loop client backend self (Suc n) messages w0))))) \<and>
   (fst (process_query client backend self user_query max_iterations w) = Inl raised \<longrightarrow>
      self_format_tools_for_claude client self = Inl raised \<or>
      (\<exists>tools m. (tools, m, Inl raised) \<in>
         set (new_requests w
                (snd (snd (process_query client backend self user_query max_iterations w))))))"
proof -
  have c: "fst (call_tool self tool_name tool_input w) =
     Inr (case fst (call_tool_try self tool_name tool_input w) of
            Inl e \<Rightarrow>
              json_dumps [(''status'', ''error''),
                          (''message'', ''Tool execution failed: '' @ exc_str e)]
          | Inr s \<Rightarrow> s)"
    by (cases "call_tool_try self tool_name tool_input w")
      (simp add: call_tool_result call_tool_except_def split: sum.splits)
  have l: "tool_loop self (ToolUseBlock block_id tool_name tool_input # blocks) tool_results w =
     tool_loop self blocks
       (tool_results @
        [\<lparr>tool_use_id = block_id,
          result_text =
            (case fst (call_tool_try self tool_name tool_input w) of
               Inl e \<Rightarrow>
                 json_dumps [(''status'', ''error''),
                             (''message'', ''Tool execution failed: '' @ exc_str e)]
             | Inr s \<Rightarrow> s)\<rparr>])
       (snd (call_tool self tool_name tool_input w))"
    using c by (cases "call_tool self tool_name tool_input w") simp
  have a: "\<exists>rs1 rs2 w1 w2.
         tool_loop self pre []
             (w0\<lparr>backend_state := b,
                 requests := requests w0 @ [(tools, messages, Inr resp)]\<rparr>) =
           (Inr rs1, w1) \<and>
         iteration client backend self messages w0 =
           (Inr None,
            messages @
              [\<lparr>msg_role = Assistant, msg_content = Blocks (response_content resp)\<rparr>,
               \<lparr>msg_role = User,
                msg_content = ToolResults
                  (rs1 @
                   \<lparr>tool_use_id = block_id,
                     result_text =
                       (case fst (call_tool_try self tool_name tool_input w1) of
                          Inl e \<Rightarrow>
                            json_dumps [(''status'', ''error''),
                                        (''message'', ''Tool execution failed: '' @ exc_str e)]
                        | Inr s \<Rightarrow> s)\<rparr> # rs2)\<rparr>], w2) \<and>
         prefix
           (messages @
              [\<lparr>msg_role = Assistant, msg_content = Blocks (response_content resp)\<rparr>,
               \<lparr>msg_role = User,
                msg_content = ToolResults
                  (rs1 @
                   \<lparr>tool_use_id = block_id,
                     result_text =
                       (case fst (call_tool_try self tool_name tool_input w1) of
                          Inl e \<Rightarrow>
                            json_dumps [(''status'', ''error''),
                                        (''message'', ''Tool execution failed: '' @ exc_str e)]
                        | Inr s \<Rightarrow> s)\<rparr> # rs2)\<rparr>])
           (fst (snd (agent_loop client backend self (Suc n) messages w0)))"
    if h: "self_format_tools_for_claude client self = Inr tools"
      "backend (backend_state w0) tools messages = (Inr resp, b)"
      "stop_reason resp = ''tool_use''"
      "response_content resp = pre @ ToolUseBlock block_id tool_name tool_input # post"
  proof -
    from iteration_appends_payload [where backend = backend, OF h]
    obtain rs1 rs2 w1 w2 where
      p: "tool_loop self pre []
             (w0\<lparr>backend_state := b,
                 requests := requests w0 @ [(tools, messages, Inr resp)]\<rparr>) =
           (Inr rs1, w1)" and
      i: "iteration client backend self messages w0 =
           (Inr None,
            messages @
              [\<lparr>msg_role = Assistant, msg_content = Blocks (response_content resp)\<rparr>,
               \<lparr>msg_role = User,
                msg_content = ToolResults
                  (rs1 @
                   \<lparr>tool_use_id = block_id,
                     result_text =
                       (case fst (call_tool_try self tool_name tool_input w1) of
                          Inl e \<Rightarrow>
                            json_dumps [(''status'', ''error''),
                                        (''message'', ''Tool execution failed: '' @ exc_str e)]
                        | Inr s \<Rightarrow> s)\<rparr> # rs2)\<rparr>], w2)"
      by blast
    let ?ms = "messages @
              [\<lparr>msg_role = Assistant, msg_content = Blocks (response_content resp)\<rparr>,
               \<lparr>msg_role = User,
                msg_content = ToolResults
                  (rs1 @
                   \<lparr>tool_use_id = block_id,
                     result_text =
                       (case fst (call_tool_try self tool_name tool_input w1) of
                          Inl e \<Rightarrow>
                            json_dumps [(''status'', ''error''),
                                        (''message'', ''Tool execution failed: '' @ exc_str e)]
                        | Inr s \<Rightarrow> s)\<rparr> # rs2)\<rparr>]"
    have "agent_loop client backend self (Suc n) messages w0 =
        agent_loop client backend self n ?ms w2"
      using i by simp
    then have "prefix ?ms (fst (snd (agent_loop client backend self (Suc n) messages w0)))"
      using agent_loop_keeps_messages [of ?ms client backend self n w2] by simp
    with p i show ?thesis by blast
  qed
  have p: "self_format_tools_for_claude client self = Inl raised \<or>
      (\<exists>tools m. (tools, m, Inl raised) \<in>
         set (new_requests w
                (snd (snd (process_query client backend self user_query max_iterations w)))))"
    if f: "fst (process_query client backend self user_query max_iterations w) = Inl raised"
  proof -
    obtain out messages w' where
      r: "process_query client backend self user_query max_iterations w = (out, messages, w')"
      by (cases "process_query client backend self user_query max_iterations w")
    with f have "agent_loop client backend self (nat max_iterations)
        [user_message user_query] w = (Inl raised, messages, w')"
      by (simp add: process_query_agent_loop)
    from agent_loop_raised_by [OF this] obtain new where
      n: "requests w' = requests w @ new"
        "self_format_tools_for_claude client self = Inl raised \<or>
         (\<exists>tools m. (tools, m, Inl raised) \<in> set new)" by blast
    from n(1) have "new_requests w w' = new" by (rule requests_new_requests)
    with n(2) r show ?thesis by simp
  qed
  from c l a p show ?thesis by blast
qed


theorem tool_failure_never_raises_witness:
  "fst (call_tool_try (qr_agent failing_session) ''generate_qr_code''
          (JObject [(''url'', JString ''https://example.com'')]) world0) =
     Inl (Exception ''McpError'' ''invalid color'') \<and>
   self_format_tools_for_claude Hyphen_file (qr_agent failing_session) = Inr qr_tools \<and>
   scripted [Inr tool_use_response] (backend_state world0) qr_tools
     [user_message ''Generate a QR code''] = (Inr tool_use_response, 1) \<and>
   stop_reason tool_use_response = ''tool_use'' \<and>
   response_content tool_use_response =
     [TextBlock ''I will make it.''] @
     ToolUseBlock ''toolu_1'' ''generate_qr_code''
       (JObject [(''url'', JString ''https://example.com'')]) # [] \<and>
   fst scenario_b = Inl (Exception ''APIError'' ''no response left'') \<and>
   fst (call_tool (qr_agent failing_session) ''generate_qr_code''
          (JObject [(''url'', JString ''https://example.com'')]) world0) =
     Inr ''{\"status\": \"error\", \"message\": \"Tool execution failed: invalid color\"}'' \<and>
   (\<exists>rs1 rs2 w1 w2.
      tool_loop (qr_agent failing_session) [TextBlock ''I will make it.''] []
          (world0\<lparr>backend_state := 1,
             requests := requests world0 @
               [(qr_tools, [user_message ''Generate a QR code''], Inr tool_use_response)]\<rparr>) =
        (Inr rs1, w1) \<and>
      iteration Hyphen_file (scripted [Inr tool_use_response]) (qr_agent failing_session)
          [user_message ''Generate a QR code''] world0 =
        (Inr None,
         [user_message ''Generate a QR code''] @
           [\<lparr>msg_role = Assistant, msg_content = Blocks (response_content tool_use_response)\<rparr>,
            \<lparr>msg_role = User,
             msg_content = ToolResults
               (rs1 @
                \<lparr>tool_use_id = ''toolu_1'',
                  result_text =
                    (case fst (call_tool_try (qr_agent failing_session) ''generate_qr_code''
                                 (JObject [(''url'', JString ''https://example.com'')]) w1) of
                       Inl e \<Rightarrow>
                         json_dumps [(''status'', ''error''),
                                     (''message'', ''Tool execution failed: '' @ exc_str e)]
                     | Inr s \<Rightarrow> s)\<rparr> # rs2)\<rparr>], w2)) \<and>
   fst (snd scenario_b) =
     [user_message ''Generate a QR code'',
      \<lparr>msg_role = Assistant, msg_content = Blocks (response_content tool_use_response)\<rparr>,
      \<lparr>msg_role = User,
       msg_content = ToolResults
         [\<lparr>tool_use_id = ''toolu_1'',
           result_text =
             ''{\"status\": \"error\", \"message\": \"Tool execution failed: invalid color\"}''\<rparr>]\<rparr>] \<and>
   (self_format_tools_for_claude Hyphen_file (qr_agent failing_session) =
      Inl (Exception ''APIError'' ''no response left'') \<or>
    (\<exists>tools m. (tools, m, Inl (Exception ''APIError'' ''no response left'')) \<in>
       set (new_requests world0 (snd (snd scenario_b)))))"
proof -
  have h1: "fst (call_tool_try (qr_agent failing_session) ''generate_qr_code''
          (JObject [(''url'', JString ''https://example.com'')]) world0) =
     Inl (Exception ''McpError'' ''invalid color'')"
    by code_simp
  have g1: "self_format_tools_for_claude Hyphen_file (qr_agent failing_session) = Inr qr_tools"
    by code_simp
  have g2: "scripted [Inr tool_use_response] (backend_state world0) qr_tools
     [user_message ''Generate a QR code''] = (Inr tool_use_response, 1)"
    by (simp add: scripted_def world0_def)
  have g3: "stop_reason tool_use_response = ''tool_use''"
    by (simp add: tool_use_response_def)
  have g4: "response_content tool_use_response =
     [TextBlock ''I will make it.''] @
     ToolUseBlock ''toolu_1'' ''generate_qr_code''
       (JObject [(''url'', JString ''https://example.com'')]) # []"
    by (simp add: tool_use_response_def qr_use_def)
  have h2: "fst scenario_b = Inl (Exception ''APIError'' ''no response left'')"
    by code_simp
  have j: "json_dumps [(''status'', ''error''),
      (''message'', ''Tool execution failed: '' @ ''invalid color'')] =
      ''{\"status\": \"error\", \"message\": \"Tool execution failed: invalid color\"}''"
    by code_simp
  have v: "fst (snd scenario_b) =
     [user_message ''Generate a QR code'',
      \<lparr>msg_role = Assistant, msg_content = Blocks (response_content tool_use_response)\<rparr>,
      \<lparr>msg_role = User,
       msg_content = ToolResults
         [\<lparr>tool_use_id = ''toolu_1'',
           result_text =
             ''{\"status\": \"error\", \"message\": \"Tool execution failed: invalid color\"}''\<rparr>]\<rparr>]"
    by code_simp
  note t = tool_failure_never_raises
    [where self = "qr_agent failing_session" and tool_name = "''generate_qr_code''"
      and tool_input = "JObject [(''url'', JString ''https://example.com'')]"
      and w = world0 and block_id = "''toolu_1''" and client = Hyphen_file
      and tools = qr_tools and backend = "scripted [Inr tool_use_response]"
      and ?w0.0 = world0 and messages = "[user_message ''Generate a QR code'']"
      and resp = tool_use_response and b = 1
      and pre = "[TextBlock ''I will make it.'']" and post = "[]" and n = 9
      and user_query = "''Generate a QR code''" and max_iterations = 10
      and raised = "Exception ''APIError'' ''no response left''"]
  from t h1 j have c: "fst (call_tool (qr_agent failing_session) ''generate_qr_code''
          (JObject [(''url'', JString ''https://example.com'')]) world0) =
     Inr ''{\"status\": \"error\", \"message\": \"Tool execution failed: invalid color\"}''"
    by simp
  from t g1 g2 g3 g4 have a: "\<exists>rs1 rs2 w1 w2.
      tool_loop (qr_agent failing_session) [TextBlock ''I will make it.''] []
          (world0\<lparr>backend_state := 1,
             requests := requests world0 @
               [(qr_tools, [user_message ''Generate a QR code''], Inr tool_use_response)]\<rparr>) =
        (Inr rs1, w1) \<and>
      iteration Hyphen_file (scripted [Inr tool_use_response]) (qr_agent failing_session)
          [user_message ''Generate a QR code''] world0 =
        (Inr None,
         [user_message ''Generate a QR code''] @
           [\<lparr>msg_role = Assistant, msg_content = Blocks (response_content tool_use_response)\<rparr>,
            \<lparr>msg_role = User,
             msg_content = ToolResults
               (rs1 @
                \<lparr>tool_use_id = ''toolu_1'',
                  result_text =
                    (case fst (call_tool_try (qr_agent failing_session) ''generate_qr_code''
                                 (JObject [(''url'', JString ''https://example.com'')]) w1) of
                       Inl e \<Rightarrow>
                         json_dumps [(''status'', ''error''),
                                     (''message'', ''Tool execution failed: '' @ exc_str e)]
                     | Inr s \<Rightarrow> s)\<rparr> # rs2)\<rparr>], w2)"
    by blast
  from t h2 have p: "self_format_tools_for_claude Hyphen_file (qr_agent failing_session) =
      Inl (Exception ''APIError'' ''no response left'') \<or>
    (\<exists>tools m. (tools, m, Inl (Exception ''APIError'' ''no response left'')) \<in>
       set (new_requests world0 (snd (snd scenario_b))))"
    unfolding scenario_b_def by blast
  from h1 g1 g2 g3 g4 h2 c a v p show ?thesis by blast
qed

text \<open>
  Claim C3. For every \<^verbatim>\<open>max_iterations\<close> (negative ones count as 0) and every backend,
  \<^verbatim>\<open>process_query\<close> sends at most \<^verbatim>\<open>max_iterations\<close> requests; the model is a total
  function, the loop running on the iterations left. When it has sent \<^verbatim>\<open>max_iterations\<close>
  requests and each was answered with \<^verbatim>\<open>tool_use\<close>, it returns (does not raise) the string
  \<^verbatim>\<open>"Agent reached maximum iterations without completing task"\<close>. With
  \<^verbatim>\<open>max_iterations = 1\<close> and a \<^verbatim>\<open>tool_use\<close> answer, the list \<^verbatim>\<open>messages\<close> at the return is
  the query message, one assistant message and one message of tool results.
\<close>

theorem iteration_budget:
  "case process_query client backend self user_query max_iterations w of
     (out, messages, w') \<Rightarrow>
       requests w' = requests w @ new_requests w w' \<and>
       length (new_requests w w') \<le> nat max_iterations \<and>
       (length (new_requests w w') = nat max_iterations \<and>
        list_all is_tool_use (new_requests w w') \<longrightarrow>
          out = Inr ''Agent reached maximum iterations without completing task'') \<and>
       (\<forall>tools m resp.
          max_iterations = 1 \<and> new_requests w w' = [(tools, m, Inr resp)] \<and>
          stop_reason resp = ''tool_use'' \<longrightarrow>
          (\<exists>tool_results.
             messages =
               [user_message user_query,
                \<lparr>msg_role = Assistant, msg_content = Blocks (response_content resp)\<rparr>,
                \<lparr>msg_role = User, msg_content = ToolResults tool_results\<rparr>]))"
proof -
  obtain out messages w' where
    r: "process_query client backend self user_query max_iterations w = (out, messages, w')"
    by (cases "process_query client backend self user_query max_iterations w")
  then have a: "agent_loop client backend self (nat max_iterations) [user_message user_query] w =
      (out, messages, w')"
    by (simp add: process_query_agent_loop)
  from agent_loop_requests [OF a] obtain new where
    n: "requests w' = requests w @ new" "length new \<le> nat max_iterations"
      "length new = nat max_iterations \<and> list_all is_tool_use new \<longrightarrow>
         out = Inr ''Agent reached maximum iterations without completing task''"
    by blast
  have nr: "new_requests w w' = new" using n(1) by (rule requests_new_requests)
  have one: "\<exists>tool_results.
             messages =
               [user_message user_query,
                \<lparr>msg_role = Assistant, msg_content = Blocks (response_content resp)\<rparr>,
                \<lparr>msg_role = User, msg_content = ToolResults tool_results\<rparr>]"
    if "max_iterations = 1" "new = [(tools, m, Inr resp)]" "stop_reason resp = ''tool_use''"
    for tools m resp
  proof -
    from a that(1) have "agent_loop client backend self (Suc 0) [user_message user_query] w =
      (out, messages, w')" by simp
    from agent_loop_once [OF this _ that(3), of tools m] n(1) that(2)
    show ?thesis by auto
  qed
  show ?thesis
    using r n nr one by simp
qed


theorem iteration_budget_witness:
  "new_requests world0 (snd (snd scenario_c)) =
     [(qr_tools, [user_message ''Generate a QR code''], Inr tool_use_response)] \<and>
   length (new_requests world0 (snd (snd scenario_c))) = nat 1 \<and>
   list_all is_tool_use (new_requests world0 (snd (snd scenario_c))) \<and>
   stop_reason tool_use_response = ''tool_use'' \<and>
   fst scenario_c = Inr ''Agent reached maximum iterations without completing task'' \<and>
   (\<exists>tool_results.
      fst (snd scenario_c) =
        [user_message ''Generate a QR code'',
         \<lparr>msg_role = Assistant, msg_content = Blocks (response_content tool_use_response)\<rparr>,
         \<lparr>msg_role = User, msg_content = ToolResults tool_results\<rparr>])"
proof -
  obtain out messages w' where r: "scenario_c = (out, messages, w')"
    by (cases scenario_c)
  have h1: "new_requests world0 (snd (snd scenario_c)) =
     [(qr_tools, [user_message ''Generate a QR code''], Inr tool_use_response)]"
    by code_simp
  have h2: "stop_reason tool_use_response = ''tool_use''"
    by (simp add: tool_use_response_def)
  have h3: "list_all is_tool_use (new_requests world0 (snd (snd scenario_c)))"
    by (simp add: h1 is_tool_use_def h2)
  have t: "case scenario_c of
     (out, messages, w') \<Rightarrow>
       requests w' = requests world0 @ new_requests world0 w' \<and>
       length (new_requests world0 w') \<le> nat 1 \<and>
       (length (new_requests world0 w') = nat 1 \<and>
        list_all is_tool_use (new_requests world0 w') \<longrightarrow>
          out = Inr ''Agent reached maximum iterations without completing task'') \<and>
       (\<forall>tools m resp.
          (1::int) = 1 \<and> new_requests world0 w' = [(tools, m, Inr resp)] \<and>
          stop_reason resp = ''tool_use'' \<longrightarrow>
          (\<exists>tool_results.
             messages =
               [user_message ''Generate a QR code'',
                \<lparr>msg_role = Assistant, msg_content = Blocks (response_content resp)\<rparr>,
                \<lparr>msg_role = User, msg_content = ToolResults tool_results\<rparr>]))"
    unfolding scenario_c_def
    by (rule iteration_budget)
  have n: "new_requests world0 w' =
     [(qr_tools, [user_message ''Generate a QR code''], Inr tool_use_response)]"
    using h1 by (simp add: r)
  from t have t1: "length (new_requests world0 w') = nat 1 \<and>
        list_all is_tool_use (new_requests world0 w') \<longrightarrow>
          out = Inr ''Agent reached maximum iterations without completing task''"
    by (simp add: r)
  from t have t2: "\<forall>tools m resp.
          (1::int) = 1 \<and> new_requests world0 w' = [(tools, m, Inr resp)] \<and>
          stop_reason resp = ''tool_use'' \<longrightarrow>
          (\<exists>tool_results.
             messages =
               [user_message ''Generate a QR code'',
                \<lparr>msg_role = Assistant, msg_content = Blocks (response_content resp)\<rparr>,
                \<lparr>msg_role = User, msg_content = ToolResults tool_results\<rparr>])"
    by (simp add: r)
  from t1 n h2 have o: "out = Inr ''Agent reached maximum iterations without completing task''"
    by (simp add: is_tool_use_def)
  from t2 n h2 have m: "\<exists>tool_results.
             messages =
               [user_message ''Generate a QR code'',
                \<lparr>msg_role = Assistant, msg_content = Blocks (response_content tool_use_response)\<rparr>,
                \<lparr>msg_role = User, msg_content = ToolResults tool_results\<rparr>]"
    by blast
  from h1 h2 h3 o m show ?thesis
    by (simp add: r)
qed

text \<open>
  Claim C4. When the response of an iteration has the stop reason \<^verbatim>\<open>end_turn\<close>, the loop
  returns in that iteration, whatever number of iterations is left: the result is the
  concatenation of the texts of the text blocks of the response in their order, the list
  \<^verbatim>\<open>messages\<close> is as it was, and in the environment only the request of this iteration
  is new (no tool was called).
\<close>

theorem end_turn_returns_text_at_once:
  assumes "self_format_tools_for_claude client self = Inr tools"
    and "backend (backend_state w) tools messages = (Inr resp, b)"
    and "stop_reason resp = ''end_turn''"
  shows "agent_loop client backend self (Suc n) messages w =
     (Inr (concat (text_blocks (response_content resp))), messages,
      w\<lparr>backend_state := b, requests := requests w @ [(tools, messages, Inr resp)]\<rparr>)"
proof (cases rule: iteration_cases [where client = client and self = self
    and backend = backend and messages = messages and w = w])
  case (lookup e)
  with assms show ?thesis by simp
next
  case (raise tools e b)
  with assms show ?thesis by simp
next
  case (tool_use tools resp b rs w2 new)
  with assms show ?thesis by simp
next
  case (end_turn tools' resp' b')
  with assms show ?thesis by (simp add: final_response_loop_concat)
next
  case (other tools resp b)
  with assms show ?thesis by simp
qed

theorem end_turn_returns_text_at_once_witness:
  "self_format_tools_for_claude Hyphen_file (qr_agent qr_session) = Inr qr_tools \<and>
   scripted [Inr end_turn_response] (backend_state world0) qr_tools
     [user_message ''Generate a QR code''] = (Inr end_turn_response, 1) \<and>
   stop_reason end_turn_response = ''end_turn'' \<and>
   agent_loop Hyphen_file (scripted [Inr end_turn_response]) (qr_agent qr_session) (Suc 9)
     [user_message ''Generate a QR code''] world0 =
     (Inr ''Here is your QR code.'', [user_message ''Generate a QR code''],
      world0\<lparr>backend_state := 1,
        requests := [(qr_tools, [user_message ''Generate a QR code''], Inr end_turn_response)]\<rparr>)"
proof -
  have h1: "self_format_tools_for_claude Hyphen_file (qr_agent qr_session) = Inr qr_tools"
    by code_simp
  have h2: "scripted [Inr end_turn_response] (backend_state world0) qr_tools
     [user_message ''Generate a QR code''] = (Inr end_turn_response, 1)"
    by (simp add: scripted_def world0_def)
  have h3: "stop_reason end_turn_response = ''end_turn''"
    by (simp add: end_turn_response_def)
  have t: "concat (text_blocks (response_content end_turn_response)) = ''Here is your QR code.''"
    by (simp add: end_turn_response_def)
  have r: "requests world0 = []" by (simp add: world0_def)
  show ?thesis
    using h1 h2 h3 end_turn_returns_text_at_once
      [where backend = "scripted [Inr end_turn_response]" and n = 9, OF h1 h2 h3]
    by (simp add: t r)
qed

text \<open>
  Claim C5. In an iteration whose response has the stop reason \<^verbatim>\<open>tool_use\<close>, \<^verbatim>\<open>call_tool\<close>
  is called once for each tool-use block of the response, in the order of the blocks,
  with the name and input of the block; the k-th tool result carries the id of the k-th
  tool-use block and what the k-th call returned; and the iteration appends to
  \<^verbatim>\<open>messages\<close> the assistant message and then one user message that holds all these
  results, before the loop goes on.
\<close>

theorem tool_calls_follow_block_order:
  assumes "self_format_tools_for_claude client self = Inr tools"
    and "backend (backend_state w) tools messages = (Inr resp, b)"
    and "stop_reason resp = ''tool_use''"
  shows "\<exists>tool_results w2.
     iteration client backend self messages w =
       (Inr None,
        messages @
          [\<lparr>msg_role = Assistant, msg_content = Blocks (response_content resp)\<rparr>,
           \<lparr>msg_role = User, msg_content = ToolResults tool_results\<rparr>], w2) \<and>
     agent_loop client backend self (Suc n) messages w =
       agent_loop client backend self n
         (messages @
            [\<lparr>msg_role = Assistant, msg_content = Blocks (response_content resp)\<rparr>,
             \<lparr>msg_role = User, msg_content = ToolResults tool_results\<rparr>]) w2 \<and>
     requests w2 = requests w @ [(tools, messages, Inr resp)] \<and>
     tool_calls w2 = tool_calls w @ new_tool_calls w w2 \<and>
     map (\<lambda>(tool_name, tool_input, ret). (tool_name, tool_input)) (new_tool_calls w w2) =
       map snd (tool_use_blocks (response_content resp)) \<and>
     map (\<lambda>(tool_name, tool_input, ret). ret) (new_tool_calls w w2) =
       map (\<lambda>r. Inr (result_text r)) tool_results \<and>
     map tool_use_id tool_results = map fst (tool_use_blocks (response_content resp))"
proof (cases rule: iteration_cases [where client = client and self = self
    and backend = backend and messages = messages and w = w])
  case (lookup e)
  with assms show ?thesis by simp
next
  case (raise tools e b)
  with assms show ?thesis by simp
next
  case (tool_use tools' resp' b' rs w2 new)
  from tool_use(7) have n: "new_tool_calls w w2 = new" by (rule tool_calls_new_tool_calls)
  from tool_use(1,2) assms(1,2) have e: "tools' = tools" "resp' = resp" by simp_all
  show ?thesis
    apply (rule exI [of _ rs])
    apply (rule exI [of _ w2])
    using tool_use(4-9) n e by simp
next
  case (end_turn tools' resp' b')
  with assms show ?thesis by simp
next
  case (other tools' resp' b')
  with assms show ?thesis by simp
qed

theorem tool_calls_follow_block_order_witness:
  "self_format_tools_for_claude Hyphen_file (qr_agent qr_session) = Inr qr_tools \<and>
   scripted [Inr two_tools_response] (backend_state world0) qr_tools
     [user_message ''Make both''] = (Inr two_tools_response, 1) \<and>
   stop_reason two_tools_response = ''tool_use'' \<and>
   (\<exists>tool_results w2.
     iteration Hyphen_file (scripted [Inr two_tools_response]) (qr_agent qr_session)
         [user_message ''Make both''] world0 =
       (Inr None,
        [user_message ''Make both''] @
          [\<lparr>msg_role = Assistant, msg_content = Blocks (response_content two_tools_response)\<rparr>,
           \<lparr>msg_role = User, msg_content = ToolResults tool_results\<rparr>], w2) \<and>
     agent_loop Hyphen_file (scripted [Inr two_tools_response]) (qr_agent qr_session) (Suc 0)
         [user_message ''Make both''] world0 =
       agent_loop Hyphen_file (scripted [Inr two_tools_response]) (qr_agent qr_session) 0
         ([user_message ''Make both''] @
            [\<lparr>msg_role = Assistant, msg_content = Blocks (response_content two_tools_response)\<rparr>,
             \<lparr>msg_role = User, msg_content = ToolResults tool_results\<rparr>]) w2 \<and>
     requests w2 =
       requests world0 @ [(qr_tools, [user_message ''Make both''], Inr two_tools_response)] \<and>
     tool_calls w2 = tool_calls world0 @ new_tool_calls world0 w2 \<and>
     map (\<lambda>(tool_name, tool_input, ret). (tool_name, tool_input)) (new_tool_calls world0 w2) =
       map snd (tool_use_blocks (response_content two_tools_response)) \<and>
     map (\<lambda>(tool_name, tool_input, ret). ret) (new_tool_calls world0 w2) =
       map (\<lambda>r. Inr (result_text r)) tool_results \<and>
     map tool_use_id tool_results =
       map fst (tool_use_blocks (response_content two_tools_response))) \<and>
   map (\<lambda>(tool_name, tool_input, ret). tool_name)
     (tool_calls (snd (snd (iteration Hyphen_file (scripted [Inr two_tools_response])
        (qr_agent qr_session) [user_message ''Make both''] world0)))) =
     [''generate_thumbnail'', ''generate_qr_code''] \<and>
   msg_content (last (fst (snd (iteration Hyphen_file (scripted [Inr two_tools_response])
        (qr_agent qr_session) [user_message ''Make both''] world0)))) =
     ToolResults [\<lparr>tool_use_id = ''toolu_1'', result_text = ''qr.png''\<rparr>,
                  \<lparr>tool_use_id = ''toolu_2'', result_text = ''qr.png''\<rparr>]"
proof -
  have h1: "self_format_tools_for_claude Hyphen_file (qr_agent qr_session) = Inr qr_tools"
    by code_simp
  have h2: "scripted [Inr two_tools_response] (backend_state world0) qr_tools
     [user_message ''Make both''] = (Inr two_tools_response, 1)"
    by (simp add: scripted_def world0_def)
  have h3: "stop_reason two_tools_response = ''tool_use''"
    by (simp add: two_tools_response_def)
  have v1: "map (\<lambda>(tool_name, tool_input, ret). tool_name)
     (tool_calls (snd (snd (iteration Hyphen_file (scripted [Inr two_tools_response])
        (qr_agent qr_session) [user_message ''Make both''] world0)))) =
     [''generate_thumbnail'', ''generate_qr_code'']"
    by code_simp
  have v2: "msg_content (last (fst (snd (iteration Hyphen_file (scripted [Inr two_tools_response])
        (qr_agent qr_session) [user_message ''Make both''] world0)))) =
     ToolResults [\<lparr>tool_use_id = ''toolu_1'', result_text = ''qr.png''\<rparr>,
                  \<lparr>tool_use_id = ''toolu_2'', result_text = ''qr.png''\<rparr>]"
    by code_simp
  note t = tool_calls_follow_block_order
    [where backend = "scripted [Inr two_tools_response]" and n = 0, OF h1 h2 h3]
  from h1 h2 h3 t v1 v2 show ?thesis by blast
qed

text \<open>
  Claim C6. When the response of an iteration has a stop reason other than \<^verbatim>\<open>tool_use\<close>
  and \<^verbatim>\<open>end_turn\<close>, the loop returns in that iteration the string
  \<^verbatim>\<open>"Agent stopped unexpectedly: "\<close> followed by the stop reason; the list \<^verbatim>\<open>messages\<close>
  is as it was, and in the environment only the request of this iteration is new (no
  retry, no tool called).
\<close>

theorem unexpected_stop_reason_returns_at_once:
  assumes "self_format_tools_for_claude client self = Inr tools"
    and "backend (backend_state w) tools messages = (Inr resp, b)"
    and "stop_reason resp \<noteq> ''tool_use''" and "stop_reason resp \<noteq> ''end_turn''"
  shows "agent_loop client backend self (Suc n) messages w =
     (Inr (''Agent stopped unexpectedly: '' @ stop_reason resp), messages,
      w\<lparr>backend_state := b, requests := requests w @ [(tools, messages, Inr resp)]\<rparr>)"
proof (cases rule: iteration_cases [where client = client and self = self
    and backend = backend and messages = messages and w = w])
  case (lookup e)
  with assms show ?thesis by simp
next
  case (raise tools e b)
  with assms show ?thesis by simp
next
  case (tool_use tools resp b rs w2 new)
  with assms show ?thesis by simp
next
  case (end_turn tools' resp' b')
  with assms show ?thesis by simp
next
  case (other tools resp b)
  with assms show ?thesis by simp
qed

theorem unexpected_stop_reason_returns_at_once_witness:
  "self_format_tools_for_claude Hyphen_file (qr_agent qr_session) = Inr qr_tools \<and>
   scripted [Inr max_tokens_response] (backend_state world0) qr_tools
     [user_message ''Generate a QR code''] = (Inr max_tokens_response, 1) \<and>
   stop_reason max_tokens_response \<noteq> ''tool_use'' \<and>
   stop_reason max_tokens_response \<noteq> ''end_turn'' \<and>
   agent_loop Hyphen_file (scripted [Inr max_tokens_response]) (qr_agent qr_session) (Suc 9)
     [user_message ''Generate a QR code''] world0 =
     (Inr ''Agent stopped unexpectedly: max_tokens'', [user_message ''Generate a QR code''],
      world0\<lparr>backend_state := 1,
        requests := [(qr_tools, [user_message ''Generate a QR code''], Inr max_tokens_response)]\<rparr>)"
proof -
  have h1: "self_format_tools_for_claude Hyphen_file (qr_agent qr_session) = Inr qr_tools"
    by code_simp
  have h2: "scripted [Inr max_tokens_response] (backend_state world0) qr_tools
     [user_message ''Generate a QR code''] = (Inr max_tokens_response, 1)"
    by (simp add: scripted_def world0_def)
  have h3: "stop_reason max_tokens_response \<noteq> ''tool_use''"
    by (simp add: max_tokens_response_def)
  have h4: "stop_reason max_tokens_response \<noteq> ''end_turn''"
    by (simp add: max_tokens_response_def)
  have t: "stop_reason max_tokens_response = ''max_tokens''"
    by (simp add: max_tokens_response_def)
  have r: "requests world0 = []" by (simp add: world0_def)
  show ?thesis
    using h1 h2 h3 h4 unexpected_stop_reason_returns_at_once
      [where backend = "scripted [Inr max_tokens_response]" and n = 9, OF h1 h2 h3 h4]
    by (simp add: t r)
qed

text \<open>
  Claim C7 says that after a successful call of the session \<^verbatim>\<open>call_tool\<close> returns the text
  of the first text-bearing element of the result, and the stringified result when
  there is none. The code reads \<^verbatim>\<open>result.content[0].text\<close> only. On a result whose content
  is an image followed by the text \<^verbatim>\<open>done\<close>, and on a result whose content is one image,
  the read raises \<^verbatim>\<open>AttributeError\<close> and the handler returns the payload
  \<^verbatim>\<open>Tool execution failed: 'ImageContent' object has no attribute 'text'\<close>, where the claim
  gives \<^verbatim>\<open>done\<close> and the stringified result.
\<close>

theorem call_tool_reports_failure_on_image_first:
  "session_call_tool (qr_agent image_session) ''generate_thumbnail'' JNull world0 =
     (Inr image_result, world0) \<and>
   spec_payload image_result = ''done'' \<and>
   fst (call_tool (qr_agent image_session) ''generate_thumbnail'' JNull world0) =
     Inr (''{\"status\": \"error\", \"message\": \"Tool execution failed: '' @
          [CHR 0x27] @ ''ImageContent'' @ [CHR 0x27] @ '' object has no attribute '' @
          [CHR 0x27] @ ''text'' @ [CHR 0x27] @ ''\"}'') \<and>
   fst (call_tool (qr_agent image_session) ''generate_thumbnail'' JNull world0) \<noteq>
     Inr (spec_payload image_result) \<and>
   session_call_tool (qr_agent image_only_session) ''generate_thumbnail'' JNull world0 =
     (Inr image_only_result, world0) \<and>
   spec_payload image_only_result = ''content=[...]'' \<and>
   fst (call_tool (qr_agent image_only_session) ''generate_thumbnail'' JNull world0) =
     Inr (''{\"status\": \"error\", \"message\": \"Tool execution failed: '' @
          [CHR 0x27] @ ''ImageContent'' @ [CHR 0x27] @ '' object has no attribute '' @
          [CHR 0x27] @ ''text'' @ [CHR 0x27] @ ''\"}'') \<and>
   fst (call_tool (qr_agent image_only_session) ''generate_thumbnail'' JNull world0) \<noteq>
     Inr (spec_payload image_only_result)"
  by code_simp

text \<open>
  Claim C8. \<^verbatim>\<open>format_tools_for_claude\<close> is the projection of the catalog: it maps each tool
  of \<^verbatim>\<open>available_tools\<close>, in the order of the catalog, to its name, description and input
  schema. Its output is a function of the catalog alone, so two calls on the same catalog
  give the same list.
\<close>

theorem format_tools_for_claude_projection:
  "format_tools_for_claude self =
     map (\<lambda>t. \<lparr>name = mcp_name t, description = mcp_description t,
                input_schema = mcp_inputSchema t\<rparr>) (available_tools self) \<and>
   (available_tools self = available_tools other \<longrightarrow>
      format_tools_for_claude self = format_tools_for_claude other)"
  by (simp add: format_tools_for_claude_def format_tools_loop_map)

theorem format_tools_for_claude_projection_witness:
  "available_tools (qr_agent qr_session) = available_tools (qr_agent failing_session) \<and>
   format_tools_for_claude (qr_agent qr_session) = format_tools_for_claude (qr_agent failing_session) \<and>
   format_tools_for_claude (qr_agent qr_session) = qr_tools"
proof -
  have h: "available_tools (qr_agent qr_session) = available_tools (qr_agent failing_session)"
    by (simp add: qr_agent_def)
  have e: "format_tools_for_claude (qr_agent qr_session) =
      format_tools_for_claude (qr_agent failing_session)"
    using format_tools_for_claude_projection [of "qr_agent qr_session" "qr_agent failing_session"] h
    by blast
  have v: "format_tools_for_claude (qr_agent qr_session) = qr_tools"
    by code_simp
  show ?thesis using h e v by blast
qed

text \<open>
  Claim C9. Whatever the environment a call of \<^verbatim>\<open>process_query\<close> starts in (also one that
  earlier queries have left), its list \<^verbatim>\<open>messages\<close> starts as the single user message of
  the query: the first request carries exactly that list. Every list sent later extends
  each list sent before it by whole messages at the end, and the list at the return or
  raise extends them all.
\<close>

theorem transcript_is_append_only:
  "case process_query client backend self user_query max_iterations w of
     (out, messages, w') \<Rightarrow>
       prefix [user_message user_query] messages \<and>
       (\<forall>rq \<in> set (new_requests w w').
          prefix [user_message user_query] (fst (snd rq)) \<and> prefix (fst (snd rq)) messages) \<and>
       sorted_wrt (\<lambda>rq rq'. strict_prefix (fst (snd rq)) (fst (snd rq'))) (new_requests w w') \<and>
       (new_requests w w' \<noteq> [] \<longrightarrow>
          fst (snd (hd (new_requests w w'))) = [user_message user_query])"
proof -
  obtain out messages w' where
    r: "process_query client backend self user_query max_iterations w = (out, messages, w')"
    by (cases "process_query client backend self user_query max_iterations w")
  then have "agent_loop client backend self (nat max_iterations) [user_message user_query] w =
      (out, messages, w')"
    by (simp add: process_query_agent_loop)
  from agent_loop_prefix [OF this] obtain new where
    n: "requests w' = requests w @ new" "prefix [user_message user_query] messages"
      "\<forall>rq \<in> set new. prefix [user_message user_query] (fst (snd rq)) \<and>
          prefix (fst (snd rq)) messages"
      "sorted_wrt (\<lambda>a b. strict_prefix (fst (snd a)) (fst (snd b))) new"
      "new \<noteq> [] \<longrightarrow> fst (snd (hd new)) = [user_message user_query]"
    by blast
  from n(1) have "new_requests w w' = new" by (rule requests_new_requests)
  with r n show ?thesis by simp
qed

theorem transcript_is_append_only_witness:
  "map (\<lambda>rq. fst (snd rq)) (new_requests world0 (snd (snd scenario_a))) =
     [[user_message ''Generate a QR code''],
      [user_message ''Generate a QR code'',
       \<lparr>msg_role = Assistant, msg_content = Blocks (response_content tool_use_response)\<rparr>,
       \<lparr>msg_role = User,
        msg_content = ToolResults [\<lparr>tool_use_id = ''toolu_1'', result_text = ''qr.png''\<rparr>]\<rparr>]] \<and>
   new_requests world0 (snd (snd scenario_a)) \<noteq> [] \<and>
   (case scenario_a of
     (out, messages, w') \<Rightarrow>
       prefix [user_message ''Generate a QR code''] messages \<and>
       (\<forall>rq \<in> set (new_requests world0 w').
          prefix [user_message ''Generate a QR code''] (fst (snd rq)) \<and>
          prefix (fst (snd rq)) messages) \<and>
       sorted_wrt (\<lambda>rq rq'. strict_prefix (fst (snd rq)) (fst (snd rq')))
         (new_requests world0 w') \<and>
       (new_requests world0 w' \<noteq> [] \<longrightarrow>
          fst (snd (hd (new_requests world0 w'))) = [user_message ''Generate a QR code'']))"
proof -
  have v: "map (\<lambda>rq. fst (snd rq)) (new_requests world0 (snd (snd scenario_a))) =
     [[user_message ''Generate a QR code''],
      [user_message ''Generate a QR code'',
       \<lparr>msg_role = Assistant, msg_content = Blocks (response_content tool_use_response)\<rparr>,
       \<lparr>msg_role = User,
        msg_content = ToolResults [\<lparr>tool_use_id = ''toolu_1'', result_text = ''qr.png''\<rparr>]\<rparr>]]"
    by code_simp
  then have ne: "new_requests world0 (snd (snd scenario_a)) \<noteq> []"
    by auto
  have t: "case scenario_a of
     (out, messages, w') \<Rightarrow>
       prefix [user_message ''Generate a QR code''] messages \<and>
       (\<forall>rq \<in> set (new_requests world0 w').
          prefix [user_message ''Generate a QR code''] (fst (snd rq)) \<and>
          prefix (fst (snd rq)) messages) \<and>
       sorted_wrt (\<lambda>rq rq'. strict_prefix (fst (snd rq)) (fst (snd rq')))
         (new_requests world0 w') \<and>
       (new_requests world0 w' \<noteq> [] \<longrightarrow>
          fst (snd (hd (new_requests world0 w'))) = [user_message ''Generate a QR code''])"
    unfolding scenario_a_def by (rule transcript_is_append_only)
  from v ne t show ?thesis by blast
qed

text \<open>
  Claim C10. In \<^verbatim>\<open>Python_Application/content_studio_client.py\<close> the class has no method
  \<^verbatim>\<open>format_tools_for_claude\<close>: for every query and every \<^verbatim>\<open>max_iterations\<close> of at least 1,
  \<^verbatim>\<open>process_query\<close> raises the \<^verbatim>\<open>AttributeError\<close> in its first iteration, with the
  environment unchanged: no request was sent and no tool was called.
\<close>

theorem underscore_file_raises_before_first_request:
  assumes "1 \<le> max_iterations"
  shows "process_query Underscore_file backend self user_query max_iterations w =
     (Inl (attribute_error ''ContentStudioAgent'' ''format_tools_for_claude''),
      [user_message user_query], w)"
proof -
  from assms obtain n where n: "nat max_iterations = Suc n"
    by (cases "nat max_iterations") auto
  have "iteration Underscore_file backend self [user_message user_query] w =
      (Inl (attribute_error ''ContentStudioAgent'' ''format_tools_for_claude''),
       [user_message user_query], w)"
    by (simp add: iteration_def self_format_tools_for_claude_def)
  then show ?thesis
    by (simp add: process_query_agent_loop n)
qed

theorem underscore_file_raises_before_first_request_witness:
  "(1::int) \<le> 10 \<and>
   process_query Underscore_file (scripted [Inr end_turn_response]) (qr_agent qr_session)
     ''Generate a QR code'' 10 world0 =
     (Inl (Exception ''AttributeError''
        ([CHR 0x27] @ ''ContentStudioAgent'' @ [CHR 0x27] @ '' object has no attribute '' @
         [CHR 0x27] @ ''format_tools_for_claude'' @ [CHR 0x27])),
      [\<lparr>msg_role = User, msg_content = PlainText ''Generate a QR code''\<rparr>],
      \<lparr>host_state = (), backend_state = 0, tool_calls = [], requests = []\<rparr>)"
proof -
  have h: "(1::int) \<le> 10" by simp
  show ?thesis
    using h underscore_file_raises_before_first_request
      [OF h, of "scripted [Inr end_turn_response]" "qr_agent qr_session"
        "''Generate a QR code''" world0]
    by (simp add: attribute_error_def user_message_def world0_def)
qed

end
